theory Spec2Isabelle
  imports Main
begin

section \<open>Exceptions\<close>

text \<open>
  The Python exceptions that the modelled code can raise. A method that may raise returns
  \<open>error + 'a\<close>, with \<open>Inl\<close> carrying the exception that leaves the method.
\<close>

datatype error = AttributeError | IndexError | KeyError | TypeError | StopIteration | IOError

section \<open>Row\<close>

text \<open>
  \<^verbatim>\<open>class Row\<close> of \<^verbatim>\<open>sqlitevtab/__init__.py\<close>: a row id and a sequence of values
  (the attribute \<^verbatim>\<open>values\<close> is the field \<open>row_values\<close>).
  The type of a column value is left open.
\<close>

record 'v Row =
  row_id :: int
  row_values :: "'v list"

section \<open>Table\<close>

text \<open>
  \<^verbatim>\<open>class Table\<close>. The three overridable methods \<^verbatim>\<open>get_table_name\<close>,
  \<^verbatim>\<open>get_column_names\<close> and \<^verbatim>\<open>get_cursor_class\<close> are the fields of the record: a
  concrete table is a choice of what they return. A cursor class differs from the base
  class only in its \<^verbatim>\<open>row_iterator\<close>, so \<open>get_cursor_class\<close> holds that method, taking
  the index number, the index name and the constraint arguments. The iterator it returns
  is modelled by the finite sequence of rows that it yields.

  The record comes in two steps. \<open>TableBase\<close> has the two methods that describe the
  table, which is all that \<^verbatim>\<open>create_table_sql\<close> and a table source use. \<open>Table\<close> adds
  the cursor class, for a table whose rows are a function of the filter arguments alone.
  A table whose \<^verbatim>\<open>row_iterator\<close> reads the world outside (the CSV table below) extends
  \<open>TableBase\<close> in its own way.
\<close>

record TableBase =
  get_table_name :: string
  get_column_names :: "string list"

record ('a, 'v) Table = TableBase +
  get_cursor_class :: "int \<Rightarrow> string option \<Rightarrow> 'a list \<Rightarrow> 'v Row list"

definition column_names :: "'z TableBase_scheme \<Rightarrow> string list" where
  "column_names self = get_column_names self"

definition table_name :: "'z TableBase_scheme \<Rightarrow> string" where
  "table_name self = get_table_name self"

text \<open>\<^verbatim>\<open>find_best_index\<close> and \<^verbatim>\<open>BestIndex\<close>: both bodies are \<^verbatim>\<open>return None\<close>.\<close>

definition find_best_index :: "('a, 'v) Table \<Rightarrow> 'c \<Rightarrow> 'o \<Rightarrow> error + 'h option" where
  "find_best_index self constraints orders = Inr None"

definition BestIndex :: "('a, 'v) Table \<Rightarrow> 'x list \<Rightarrow> error + 'h option" where
  "BestIndex self args = Inr None"

text \<open>
  Python's \<^verbatim>\<open>sep.join(xs)\<close> on strings, and the double quote character of the
  format string \<^verbatim>\<open>"CREATE TABLE \"%s\" (%s)"\<close>.
\<close>

fun join :: "string \<Rightarrow> string list \<Rightarrow> string" where
  "join sep [] = []"
| "join sep [x] = x"
| "join sep (x # y # ys) = x @ sep @ join sep (y # ys)"

definition dquote :: char where
  "dquote = CHR 0x22"

definition create_table_sql :: "'z TableBase_scheme \<Rightarrow> string" where
  "create_table_sql self =
     ''CREATE TABLE '' @ [dquote] @ table_name self @ [dquote] @ '' ('' @
     join '', '' (column_names self) @ '')''"

section \<open>Cursor\<close>

text \<open>
  \<^verbatim>\<open>class Cursor\<close>. \<^verbatim>\<open>__init__\<close> sets \<^verbatim>\<open>table\<close>, \<^verbatim>\<open>eof\<close> and \<^verbatim>\<open>row\<close> and does not
  set \<^verbatim>\<open>iter\<close>: the attribute exists only once \<^verbatim>\<open>Filter\<close> has assigned it, so the
  field \<open>iter\<close> is \<open>None\<close> until then. \<open>row\<close> is \<open>None\<close> where Python holds \<^verbatim>\<open>None\<close>.
\<close>

record ('a, 'v) Cursor =
  table :: "('a, 'v) Table"
  eof :: bool
  row :: "'v Row option"
  iter :: "'v Row list option"

definition Cursor_init :: "('a, 'v) Table \<Rightarrow> ('a, 'v) Cursor" where
  "Cursor_init tbl = \<lparr>table = tbl, eof = False, row = None, iter = None\<rparr>"

definition Open :: "('a, 'v) Table \<Rightarrow> ('a, 'v) Cursor" where
  "Open self = Cursor_init self"

definition row_iterator ::
  "('a, 'v) Cursor \<Rightarrow> int \<Rightarrow> string option \<Rightarrow> 'a list \<Rightarrow> 'v Row list" where
  "row_iterator self index_number index_name args =
     get_cursor_class (table self) index_number index_name args"

text \<open>
  \<^verbatim>\<open>Next\<close>: \<^verbatim>\<open>self.iter.next()\<close> raises AttributeError when \<^verbatim>\<open>iter\<close> was never
  assigned, and that exception is not the one the \<^verbatim>\<open>except\<close> clause catches. An
  iterator with nothing left raises StopIteration, which is caught: only \<^verbatim>\<open>eof\<close>
  changes. Otherwise the row is stored and the iterator has moved on by one.
\<close>

definition Next :: "('a, 'v) Cursor \<Rightarrow> error + ('a, 'v) Cursor" where
  "Next self =
     (case iter self of
        None \<Rightarrow> Inl AttributeError
      | Some [] \<Rightarrow> Inr (self\<lparr>eof := True\<rparr>)
      | Some (r # rest) \<Rightarrow> Inr (self\<lparr>row := Some r, iter := Some rest\<rparr>))"

definition Filter ::
  "('a, 'v) Cursor \<Rightarrow> int \<Rightarrow> string option \<Rightarrow> 'a list \<Rightarrow> error + ('a, 'v) Cursor" where
  "Filter self index_number index_name constraintargs =
     Next (self\<lparr>iter := Some (row_iterator self index_number index_name constraintargs)\<rparr>)"

definition Eof :: "('a, 'v) Cursor \<Rightarrow> bool" where
  "Eof self = eof self"

definition Rowid :: "('a, 'v) Cursor \<Rightarrow> error + int" where
  "Rowid self = (case row self of None \<Rightarrow> Inl AttributeError | Some r \<Rightarrow> Inr (row_id r))"

text \<open>
  Python list indexing by an integer: an index from \<open>- len\<close> up to \<open>-1\<close> counts from
  the end, and an index outside \<open>- len \<dots> len - 1\<close> raises IndexError.
\<close>

definition list_getitem :: "'v list \<Rightarrow> int \<Rightarrow> error + 'v" where
  "list_getitem xs idx =
     (if 0 \<le> idx \<and> idx < int (length xs) then Inr (xs ! nat idx)
      else if - int (length xs) \<le> idx \<and> idx < 0 then Inr (xs ! nat (int (length xs) + idx))
      else Inl IndexError)"

definition Column :: "('a, 'v) Cursor \<Rightarrow> int \<Rightarrow> error + 'v" where
  "Column self idx =
     (case row self of None \<Rightarrow> Inl AttributeError | Some r \<Rightarrow> list_getitem (row_values r) idx)"

section \<open>The host's calls on a cursor\<close>

text \<open>
  The host engine drives a cursor by a sequence of \<^verbatim>\<open>Filter\<close> and \<^verbatim>\<open>Next\<close> calls.
  \<open>drive\<close> runs such a sequence; an exception ends it.
\<close>

datatype 'a call = FilterCall int "string option" "'a list" | NextCall

fun drive :: "('a, 'v) Cursor \<Rightarrow> 'a call list \<Rightarrow> error + ('a, 'v) Cursor" where
  "drive self [] = Inr self"
| "drive self (FilterCall index_number index_name constraintargs # calls) =
     (case Filter self index_number index_name constraintargs of
        Inl e \<Rightarrow> Inl e
      | Inr self' \<Rightarrow> drive self' calls)"
| "drive self (NextCall # calls) =
     (case Next self of Inl e \<Rightarrow> Inl e | Inr self' \<Rightarrow> drive self' calls)"

definition filter_then_nexts ::
  "('a, 'v) Table \<Rightarrow> int \<Rightarrow> string option \<Rightarrow> 'a list \<Rightarrow> nat \<Rightarrow> error + ('a, 'v) Cursor" where
  "filter_then_nexts tbl index_number index_name constraintargs k =
     drive (Open tbl) (FilterCall index_number index_name constraintargs # replicate k NextCall)"

text \<open>
  Reading the current row as the host does: \<^verbatim>\<open>Rowid()\<close>, then \<^verbatim>\<open>Column(i)\<close> for each
  column index \<open>i\<close> of the table, in order.
\<close>

fun read_columns :: "('a, 'v) Cursor \<Rightarrow> int list \<Rightarrow> error + 'v list" where
  "read_columns self [] = Inr []"
| "read_columns self (idx # idxs) =
     (case Column self idx of
        Inl e \<Rightarrow> Inl e
      | Inr v \<Rightarrow> (case read_columns self idxs of Inl e \<Rightarrow> Inl e | Inr vs \<Rightarrow> Inr (v # vs)))"

definition column_indexes :: "('a, 'v) Table \<Rightarrow> int list" where
  "column_indexes tbl = map int [0 ..< length (column_names tbl)]"

definition read_row :: "('a, 'v) Cursor \<Rightarrow> error + (int \<times> 'v list)" where
  "read_row self =
     (case Rowid self of
        Inl e \<Rightarrow> Inl e
      | Inr rid \<Rightarrow>
          (case read_columns self (column_indexes (table self)) of
             Inl e \<Rightarrow> Inl e
           | Inr vs \<Rightarrow> Inr (rid, vs)))"

text \<open>
  The host's scan loop after \<^verbatim>\<open>Filter\<close>: while \<^verbatim>\<open>Eof()\<close> is false, read the current
  row and call \<^verbatim>\<open>Next()\<close>. It returns what was read and the cursor as the loop leaves it.
\<close>

function scan :: "('a, 'v) Cursor \<Rightarrow> error + ((int \<times> 'v list) list \<times> ('a, 'v) Cursor)" where
  "scan self =
     (if Eof self then Inr ([], self)
      else
        (case read_row self of
           Inl e \<Rightarrow> Inl e
         | Inr x \<Rightarrow>
             (case Next self of
                Inl e \<Rightarrow> Inl e
              | Inr self' \<Rightarrow>
                  (case scan self' of
                     Inl e \<Rightarrow> Inl e
                   | Inr (xs, final) \<Rightarrow> Inr (x # xs, final)))))"
  by pat_completeness auto
termination
proof (relation "measure (\<lambda>c. if eof c then 0 else
                   (case iter c of None \<Rightarrow> 0 | Some rs \<Rightarrow> Suc (length rs)))")
  show "wf (measure (\<lambda>c::('a, 'v) Cursor. if eof c then 0 else
                   (case iter c of None \<Rightarrow> 0 | Some rs \<Rightarrow> Suc (length rs))))"
    by simp
next
  fix self self' :: "('a, 'v) Cursor" and x :: "int \<times> 'v list"
  assume "\<not> Eof self" and "Next self = Inr self'"
  then show "(self', self) \<in> measure (\<lambda>c. if eof c then 0 else
                   (case iter c of None \<Rightarrow> 0 | Some rs \<Rightarrow> Suc (length rs)))"
    by (auto simp: Next_def Eof_def split: option.splits list.splits)
qed

declare scan.simps [simp del]

definition full_scan ::
  "('a, 'v) Cursor \<Rightarrow> int \<Rightarrow> string option \<Rightarrow> 'a list
     \<Rightarrow> error + ((int \<times> 'v list) list \<times> ('a, 'v) Cursor)" where
  "full_scan self index_number index_name constraintargs =
     (case Filter self index_number index_name constraintargs of
        Inl e \<Rightarrow> Inl e
      | Inr self' \<Rightarrow> scan self')"

definition rows_read ::
  "error + ((int \<times> 'v list) list \<times> ('a, 'v) Cursor) \<Rightarrow> error + (int \<times> 'v list) list" where
  "rows_read result = (case result of Inl e \<Rightarrow> Inl e | Inr (xs, final) \<Rightarrow> Inr xs)"

definition scan_twice ::
  "('a, 'v) Cursor \<Rightarrow> int \<Rightarrow> string option \<Rightarrow> 'a list
     \<Rightarrow> error + ((int \<times> 'v list) list \<times> (int \<times> 'v list) list)" where
  "scan_twice self index_number index_name constraintargs =
     (case full_scan self index_number index_name constraintargs of
        Inl e \<Rightarrow> Inl e
      | Inr (xs, self') \<Rightarrow>
          (case full_scan self' index_number index_name constraintargs of
             Inl e \<Rightarrow> Inl e
           | Inr (ys, final) \<Rightarrow> Inr (xs, ys)))"

definition row_as_read :: "'v Row \<Rightarrow> int \<times> 'v list" where
  "row_as_read r = (row_id r, row_values r)"

section \<open>TableSource\<close>

text \<open>
  \<^verbatim>\<open>class TableSource\<close>. \<^verbatim>\<open>connect_table\<close> is abstract and \<^verbatim>\<open>create_table\<close> may be
  overridden, so a concrete source is a choice of the first and, optionally, of the second.
  Both take the database handle, the module name, the database name, the table name and
  the arguments of the \<^verbatim>\<open>CREATE VIRTUAL TABLE\<close> statement. They may raise, and they may
  act on the world outside the adapter (allocate a resource, read a file): \<open>'w\<close> is the
  state of that world, passed in and returned. \<open>'t\<close> is the class of the tables that the
  source makes.
\<close>

type_synonym ('d, 'w, 't) table_method =
  "'d \<Rightarrow> string \<Rightarrow> string \<Rightarrow> string \<Rightarrow> string list \<Rightarrow> 'w \<Rightarrow> (error + 't) \<times> 'w"

record ('d, 'w, 't) TableSource =
  connect_table :: "('d, 'w, 't) table_method"
  create_table_override :: "('d, 'w, 't) table_method option"

text \<open>
  \<^verbatim>\<open>create_table\<close> as the instance resolves it: the override where there is one, and
  otherwise the base method, whose body is \<^verbatim>\<open>return self.connect_table(...)\<close>.
\<close>

definition create_table :: "('d, 'w, 't) TableSource \<Rightarrow> ('d, 'w, 't) table_method" where
  "create_table self db module_name db_name tablename args w =
     (case create_table_override self of
        None \<Rightarrow> connect_table self db module_name db_name tablename args w
      | Some override \<Rightarrow> override db module_name db_name tablename args w)"

definition Create ::
  "('d, 'w, 'z TableBase_scheme) TableSource \<Rightarrow> 'd \<Rightarrow> string \<Rightarrow> string \<Rightarrow> string
     \<Rightarrow> string list \<Rightarrow> 'w \<Rightarrow> (error + (string \<times> 'z TableBase_scheme)) \<times> 'w" where
  "Create self db modulename dbname tablename args w =
     (case create_table self db modulename dbname tablename args w of
        (Inl e, w') \<Rightarrow> (Inl e, w')
      | (Inr tbl, w') \<Rightarrow> (Inr (create_table_sql tbl, tbl), w'))"

definition Connect ::
  "('d, 'w, 'z TableBase_scheme) TableSource \<Rightarrow> 'd \<Rightarrow> string \<Rightarrow> string \<Rightarrow> string
     \<Rightarrow> string list \<Rightarrow> 'w \<Rightarrow> (error + (string \<times> 'z TableBase_scheme)) \<times> 'w" where
  "Connect self db modulename dbname tablename args w =
     (case create_table self db modulename dbname tablename args w of
        (Inl e, w') \<Rightarrow> (Inl e, w')
      | (Inr tbl, w') \<Rightarrow> (Inr (create_table_sql tbl, tbl), w'))"

section \<open>The CSV tables of \<^verbatim>\<open>sqlitevtab/csv.py\<close>\<close>

text \<open>
  A CSV file is given by the records that \<^verbatim>\<open>csv.reader\<close> yields for it, the header
  first; the file system maps a file name to them.

  The generator \<^verbatim>\<open>Cursor.row_iterator\<close> opens the file anew, skips the header with
  \<^verbatim>\<open>reader.next()\<close> (on an empty file the StopIteration ends the generator) and runs
  the loop \<^verbatim>\<open>for row in reader: yield Row(row_id=idx, values=row); idx += 0\<close>.
\<close>

type_synonym csv_records = "string list list"

fun row_iterator_loop :: "int \<Rightarrow> csv_records \<Rightarrow> string Row list" where
  "row_iterator_loop idx [] = []"
| "row_iterator_loop idx (r # reader) =
     \<lparr>row_id = idx, row_values = r\<rparr> # row_iterator_loop (idx + 0) reader"

definition csv_row_iterator :: "csv_records \<Rightarrow> string Row list" where
  "csv_row_iterator file =
     (case file of [] \<Rightarrow> [] | header # reader \<Rightarrow> row_iterator_loop 0 reader)"

text \<open>
  \<^verbatim>\<open>class Table\<close> of the CSV module keeps \<^verbatim>\<open>_table_name\<close>, \<^verbatim>\<open>columns\<close> and
  \<^verbatim>\<open>csv_file\<close>; \<^verbatim>\<open>get_table_name\<close> and \<^verbatim>\<open>get_column_names\<close> return the first two.
  \<^verbatim>\<open>__init__\<close> opens the file (IOError when there is none) and takes the first record
  as the column names (StopIteration when there is no record). Nothing else of the file
  is kept in the table.
\<close>

record csv_Table = TableBase +
  csv_file :: string

definition csv_Table_init ::
  "(string \<rightharpoonup> csv_records) \<Rightarrow> string \<Rightarrow> string \<Rightarrow> error + csv_Table" where
  "csv_Table_init fs tbl_name fn =
     (case fs fn of
        None \<Rightarrow> Inl IOError
      | Some [] \<Rightarrow> Inl StopIteration
      | Some (columns # reader) \<Rightarrow>
          Inr \<lparr>get_table_name = tbl_name, get_column_names = columns, csv_file = fn\<rparr>)"

text \<open>
  \<^verbatim>\<open>Cursor.row_iterator\<close> of the CSV module opens \<^verbatim>\<open>self.table.csv_file\<close> in the file
  system as it is when the scan runs, not as it was when the table was connected. When
  the file cannot be opened the generator raises IOError at its first pull, which is
  the \<^verbatim>\<open>Next\<close> inside \<^verbatim>\<open>Filter\<close>: there is no row sequence then.

  \<open>csv_Table_for_scan\<close> is the CSV table as the base classes see it during a scan in
  the file system \<open>fs\<close>: its name, its columns, and a cursor class that yields the rows
  of that scan.
\<close>

definition csv_Cursor_row_iterator ::
  "(string \<rightharpoonup> csv_records) \<Rightarrow> csv_Table \<Rightarrow> error + string Row list" where
  "csv_Cursor_row_iterator fs tbl =
     (case fs (csv_file tbl) of
        None \<Rightarrow> Inl IOError
      | Some file \<Rightarrow> Inr (csv_row_iterator file))"

definition csv_Table_for_scan ::
  "(string \<rightharpoonup> csv_records) \<Rightarrow> csv_Table \<Rightarrow> error + ('a, string) Table" where
  "csv_Table_for_scan fs tbl =
     (case csv_Cursor_row_iterator fs tbl of
        Inl e \<Rightarrow> Inl e
      | Inr rows \<Rightarrow>
          Inr \<lparr>get_table_name = get_table_name tbl, get_column_names = get_column_names tbl,
               get_cursor_class = (\<lambda>index_number index_name args. rows)\<rparr>)"

text \<open>
  \<^verbatim>\<open>Source.connect_table(self, db, modulename, dbname, tablename, fn)\<close> takes exactly one
  statement argument; any other number is a TypeError of the call.
\<close>

definition csv_connect_table :: "('d, string \<rightharpoonup> csv_records, csv_Table) table_method" where
  "csv_connect_table db modulename dbname tablename args fs =
     (case args of
        [fn] \<Rightarrow> (csv_Table_init fs tablename fn, fs)
      | _ \<Rightarrow> (Inl TypeError, fs))"

definition csv_Source :: "('d, string \<rightharpoonup> csv_records, csv_Table) TableSource" where
  "csv_Source = \<lparr>connect_table = csv_connect_table, create_table_override = None\<rparr>"

text \<open>
  A connection, as far as this code uses it, is its registry of modules, and
  \<^verbatim>\<open>connection.createmodule(name, source)\<close> binds a name in it.
  \<^verbatim>\<open>register_on_connection(connection, name="csv")\<close> has the body
  \<^verbatim>\<open>connection.createmodule("csv", Source())\<close>.
\<close>

definition createmodule :: "(string \<rightharpoonup> 'm) \<Rightarrow> string \<Rightarrow> 'm \<Rightarrow> (string \<rightharpoonup> 'm)" where
  "createmodule connection name source = connection(name \<mapsto> source)"

definition register_on_connection ::
  "(string \<rightharpoonup> ('d, string \<rightharpoonup> csv_records, csv_Table) TableSource) \<Rightarrow> string
     \<Rightarrow> (string \<rightharpoonup> ('d, string \<rightharpoonup> csv_records, csv_Table) TableSource)" where
  "register_on_connection connection name = createmodule connection ''csv'' csv_Source"

section \<open>Example tables\<close>

text \<open>
  The table of the spec's first two scenarios: \<^verbatim>\<open>mytable\<close> with the columns \<^verbatim>\<open>a\<close>
  and \<^verbatim>\<open>b\<close>, whose row iterator yields three rows whatever the filter arguments are.
\<close>

datatype pyvalue = PyStr string | PyInt int | PyNone

definition xyz_rows :: "pyvalue Row list" where
  "xyz_rows =
     [\<lparr>row_id = 10, row_values = [PyStr ''x'', PyInt 1]\<rparr>,
      \<lparr>row_id = 20, row_values = [PyStr ''y'', PyInt 2]\<rparr>,
      \<lparr>row_id = 30, row_values = [PyStr ''z'', PyInt 3]\<rparr>]"

definition mytable :: "(pyvalue, pyvalue) Table" where
  "mytable =
     \<lparr>get_table_name = ''mytable'', get_column_names = [''a'', ''b''],
      get_cursor_class = (\<lambda>index_number index_name args. xyz_rows)\<rparr>"

text \<open>
  Two tables that declare the columns \<^verbatim>\<open>a\<close> and \<^verbatim>\<open>b\<close> and whose rows do not all
  carry two values: the second row of the first has one value, the row of the second
  has three.
\<close>

definition ragged_table :: "(pyvalue, pyvalue) Table" where
  "ragged_table =
     \<lparr>get_table_name = ''ragged'', get_column_names = [''a'', ''b''],
      get_cursor_class = (\<lambda>index_number index_name args.
        [\<lparr>row_id = 1, row_values = [PyStr ''x'', PyInt 1]\<rparr>,
         \<lparr>row_id = 2, row_values = [PyStr ''y'']\<rparr>])\<rparr>"

definition wide_table :: "(pyvalue, pyvalue) Table" where
  "wide_table =
     \<lparr>get_table_name = ''wide'', get_column_names = [''a'', ''b''],
      get_cursor_class = (\<lambda>index_number index_name args.
        [\<lparr>row_id = 1, row_values = [PyStr ''x'', PyInt 1, PyNone]\<rparr>])\<rparr>"

text \<open>
  A CSV file with the header \<^verbatim>\<open>name,age\<close> and two data lines, the CSV table connected
  to it, and that table as a scan sees it while the file is as given.
\<close>

definition people_csv :: csv_records where
  "people_csv = [[''name'', ''age''], [''alice'', ''30''], [''bob'', ''25'']]"

definition people_fs :: "string \<rightharpoonup> csv_records" where
  "people_fs = [''people.csv'' \<mapsto> people_csv]"

definition people :: csv_Table where
  "people =
     \<lparr>get_table_name = ''people'', get_column_names = [''name'', ''age''],
      csv_file = ''people.csv''\<rparr>"

definition people_table :: "(pyvalue, string) Table" where
  "people_table =
     \<lparr>get_table_name = ''people'', get_column_names = [''name'', ''age''],
      get_cursor_class = (\<lambda>index_number index_name args. csv_row_iterator people_csv)\<rparr>"

text \<open>
  A source that overrides \<^verbatim>\<open>create_table\<close>: creating allocates a resource, counted by
  the world state, and connecting does not.
\<close>

definition lookup_only :: "(unit, nat, (pyvalue, pyvalue) Table) table_method" where
  "lookup_only db module_name db_name tbl_name args w = (Inr mytable, w)"

definition allocate :: "(unit, nat, (pyvalue, pyvalue) Table) table_method" where
  "allocate db module_name db_name tbl_name args w = (Inr mytable, Suc w)"

definition allocating_source :: "(unit, nat, (pyvalue, pyvalue) Table) TableSource" where
  "allocating_source = \<lparr>connect_table = lookup_only, create_table_override = Some allocate\<rparr>"

section \<open>The schema declaration\<close>

lemma join_butlast:
  "join sep xs = concat (map (\<lambda>x. x @ sep) (butlast xs)) @ (if xs = [] then [] else last xs)"
  by (induction sep xs rule: join.induct) simp_all

text \<open>
  C2, as the spec states it: for the table \<^verbatim>\<open>mytable\<close> with the columns \<^verbatim>\<open>a\<close> and
  \<^verbatim>\<open>b\<close> the schema string would carry each column name in double quotes. The format
  string quotes the table name only, so the string that \<^verbatim>\<open>create_table_sql\<close> returns
  is a different one.
\<close>

theorem create_table_sql_columns_not_quoted:
  "create_table_sql mytable \<noteq>
     ''CREATE TABLE '' @ [dquote] @ ''mytable'' @ [dquote] @ '' ('' @
     [dquote] @ ''a'' @ [dquote] @ '', '' @ [dquote] @ ''b'' @ [dquote] @ '')''"
  by (simp add: create_table_sql_def table_name_def column_names_def mytable_def dquote_def)

text \<open>
  C2, amended: for \<^verbatim>\<open>mytable\<close> with the columns \<^verbatim>\<open>a\<close> and \<^verbatim>\<open>b\<close> the schema string
  is \<^verbatim>\<open>CREATE TABLE "mytable" (a, b)\<close>, the column names unquoted. For every table it is
  \<^verbatim>\<open>CREATE TABLE "\<close>, the table name, \<^verbatim>\<open>" (\<close>, then the column names in declared
  order, each once, every one but the last followed by a comma and a space, then \<^verbatim>\<open>)\<close>.
\<close>

theorem create_table_sql_format:
  "create_table_sql mytable =
     ''CREATE TABLE '' @ [dquote] @ ''mytable'' @ [dquote] @ '' (a, b)'' \<and>
   create_table_sql tbl =
     ''CREATE TABLE '' @ [dquote] @ table_name tbl @ [dquote] @ '' ('' @
     concat (map (\<lambda>name. name @ '', '') (butlast (column_names tbl))) @
     (if column_names tbl = [] then [] else last (column_names tbl)) @ '')''"
proof
  show "create_table_sql mytable =
      ''CREATE TABLE '' @ [dquote] @ ''mytable'' @ [dquote] @ '' (a, b)''"
    by (simp add: create_table_sql_def table_name_def column_names_def mytable_def)
  show "create_table_sql tbl =
      ''CREATE TABLE '' @ [dquote] @ table_name tbl @ [dquote] @ '' ('' @
      concat (map (\<lambda>name. name @ '', '') (butlast (column_names tbl))) @
      (if column_names tbl = [] then [] else last (column_names tbl)) @ '')''"
    unfolding create_table_sql_def join_butlast [of "'', ''" "column_names tbl"] by simp
qed

section \<open>Index selection\<close>

text \<open>
  C6: for every table, whatever constraints, orderings or raw arguments are passed,
  \<^verbatim>\<open>find_best_index\<close> and the \<^verbatim>\<open>BestIndex\<close> entry point return normally, and what they
  return is \<^verbatim>\<open>None\<close>, that is, no index hint.
\<close>

theorem best_index_no_hint:
  "find_best_index tbl constraints orders = Inr None \<and> BestIndex tbl args = Inr None"
  by (simp add: find_best_index_def BestIndex_def)

section \<open>Next before Filter\<close>

text \<open>
  C7: on a cursor that no \<^verbatim>\<open>Filter\<close> call has touched since \<^verbatim>\<open>Open\<close>, \<^verbatim>\<open>Next\<close> fails:
  the AttributeError of the missing iterator leaves the method, and no cursor state
  (in particular no end-of-data flag) is produced.
\<close>

theorem Next_before_Filter_raises:
  "Next (Open tbl) = Inl AttributeError"
  by (simp add: Next_def Open_def Cursor_init_def)

section \<open>The cursor after Filter and Next\<close>

lemma row_iterator_Open: "row_iterator (Open tbl) n nm args = get_cursor_class tbl n nm args"
  by (simp add: row_iterator_def Open_def Cursor_init_def)

lemma Filter_Open:
  "Filter (Open tbl) n nm args =
     (case get_cursor_class tbl n nm args of
        [] \<Rightarrow> Inr \<lparr>table = tbl, eof = True, row = None, iter = Some []\<rparr>
      | r # rs \<Rightarrow> Inr \<lparr>table = tbl, eof = False, row = Some r, iter = Some rs\<rparr>)"
  by (simp add: Filter_def Next_def Open_def Cursor_init_def row_iterator_def split: list.splits)

lemma Filter_returns:
  "\<exists>c. Filter self n nm args = Inr c \<and> Eof c = (Eof self \<or> row_iterator self n nm args = [])"
  by (simp add: Filter_def Next_def Eof_def split: list.splits)

lemma drive_exhausted:
  "iter self = Some [] \<Longrightarrow> eof self \<Longrightarrow> drive self (replicate k NextCall) = Inr self"
proof (induction k)
  case 0
  then show ?case by simp
next
  case (Suc k)
  then have "Next self = Inr self"
    by (cases self) (simp add: Next_def)
  then show ?case using Suc by simp
qed

lemma drive_positioned:
  "\<not> eof self \<Longrightarrow> row self = Some r \<Longrightarrow> iter self = Some rs \<Longrightarrow>
   drive self (replicate k NextCall) =
     Inr (self\<lparr>eof := length rs < k, row := Some ((r # rs) ! min k (length rs)),
               iter := Some (drop k rs)\<rparr>)"
proof (induction k arbitrary: self r rs)
  case 0
  then show ?case by (cases self) simp
next
  case (Suc k)
  show ?case
  proof (cases rs)
    case Nil
    let ?c = "self\<lparr>eof := True\<rparr>"
    have "Next self = Inr ?c"
      using Suc.prems Nil by (simp add: Next_def)
    moreover have "drive ?c (replicate k NextCall) = Inr ?c"
      using Suc.prems Nil by (intro drive_exhausted) simp_all
    moreover have "?c = self\<lparr>eof := True, row := Some r, iter := Some []\<rparr>"
      using Suc.prems Nil by (cases self) simp
    ultimately show ?thesis using Nil by simp
  next
    case (Cons r1 rs1)
    let ?c = "self\<lparr>row := Some r1, iter := Some rs1\<rparr>"
    have "Next self = Inr ?c"
      using Suc.prems Cons by (simp add: Next_def)
    moreover have "drive ?c (replicate k NextCall) =
        Inr (?c\<lparr>eof := length rs1 < k, row := Some ((r1 # rs1) ! min k (length rs1)),
                 iter := Some (drop k rs1)\<rparr>)"
      using Suc.prems by (intro Suc.IH) simp_all
    ultimately show ?thesis using Cons by simp
  qed
qed

lemma filter_then_nexts_state:
  "filter_then_nexts tbl n nm args k =
     Inr \<lparr>table = tbl,
          eof = (length (get_cursor_class tbl n nm args) \<le> k),
          row = (case get_cursor_class tbl n nm args of [] \<Rightarrow> None
                 | r # rs \<Rightarrow> Some ((r # rs) ! min k (length rs))),
          iter = Some (drop (Suc k) (get_cursor_class tbl n nm args))\<rparr>"
proof (cases "get_cursor_class tbl n nm args")
  case Nil
  then show ?thesis
    by (simp add: filter_then_nexts_def Filter_Open drive_exhausted)
next
  case (Cons r rs)
  let ?c = "\<lparr>table = tbl, eof = False, row = Some r, iter = Some rs\<rparr>"
  have "drive ?c (replicate k NextCall) =
      Inr (?c\<lparr>eof := length rs < k, row := Some ((r # rs) ! min k (length rs)),
               iter := Some (drop k rs)\<rparr>)"
    by (intro drive_positioned) simp_all
  then show ?thesis
    using Cons by (simp add: filter_then_nexts_def Filter_Open less_Suc_eq_le Suc_le_eq)
qed

lemma mytable_rows: "get_cursor_class mytable n nm args = xyz_rows"
  by (simp add: mytable_def)

lemma mytable_widths:
  "\<forall>r \<in> set (get_cursor_class mytable n nm args).
     length (row_values r) = length (column_names mytable)"
  by (simp add: mytable_def xyz_rows_def column_names_def)

text \<open>
  C5, as the spec states it: once \<^verbatim>\<open>Next\<close> has hit the end of the sequence and set
  \<^verbatim>\<open>eof\<close>, no row fetched before would be readable. On \<^verbatim>\<open>mytable\<close>, after \<^verbatim>\<open>Filter\<close>
  and three \<^verbatim>\<open>Next\<close> calls the flag is set and the third row is still the current row:
  \<^verbatim>\<open>Rowid\<close> and \<^verbatim>\<open>Column\<close> return its id and its first value.
\<close>

theorem row_readable_after_exhaustion:
  "filter_then_nexts mytable 0 None [] 3 =
     Inr \<lparr>table = mytable, eof = True,
          row = Some \<lparr>row_id = 30, row_values = [PyStr ''z'', PyInt 3]\<rparr>, iter = Some []\<rparr> \<and>
   Rowid \<lparr>table = mytable, eof = True,
          row = Some \<lparr>row_id = 30, row_values = [PyStr ''z'', PyInt 3]\<rparr>, iter = Some []\<rparr>
     = Inr 30 \<and>
   Column \<lparr>table = mytable, eof = True,
           row = Some \<lparr>row_id = 30, row_values = [PyStr ''z'', PyInt 3]\<rparr>, iter = Some []\<rparr> 0
     = Inr (PyStr ''z'')"
  by (simp add: filter_then_nexts_state mytable_rows xyz_rows_def Rowid_def Column_def
      list_getitem_def)

text \<open>
  C5, amended: a cursor just opened has \<^verbatim>\<open>eof\<close> false and no current row. After one
  \<^verbatim>\<open>Filter\<close> and \<open>k\<close> further \<^verbatim>\<open>Next\<close> calls, over a row sequence of length \<open>L\<close>:
  \<^verbatim>\<open>eof\<close> is true iff \<open>L \<le> k\<close>, that is, iff one of the \<open>k + 1\<close> pulls found the
  iterator empty; the current row is the row of index \<open>min k (L - 1)\<close>, absent only
  when the sequence is empty; the iterator holds the rows after index \<open>k\<close>. So while
  \<^verbatim>\<open>eof\<close> is false the current row is defined, once \<^verbatim>\<open>eof\<close> is true the iterator is
  empty and a further \<^verbatim>\<open>Next\<close> changes nothing, and hitting the end only sets the flag:
  the last row fetched stays the current row.
\<close>

theorem cursor_state_after_filter_and_nexts:
  "Open tbl = \<lparr>table = tbl, eof = False, row = None, iter = None\<rparr> \<and>
   filter_then_nexts tbl n nm args k =
     Inr \<lparr>table = tbl,
          eof = (length (row_iterator (Open tbl) n nm args) \<le> k),
          row = (if row_iterator (Open tbl) n nm args = [] then None
                 else Some (row_iterator (Open tbl) n nm args !
                              min k (length (row_iterator (Open tbl) n nm args) - 1))),
          iter = Some (drop (Suc k) (row_iterator (Open tbl) n nm args))\<rparr>"
proof
  show "Open tbl = \<lparr>table = tbl, eof = False, row = None, iter = None\<rparr>"
    by (simp add: Open_def Cursor_init_def)
  show "filter_then_nexts tbl n nm args k =
     Inr \<lparr>table = tbl,
          eof = (length (row_iterator (Open tbl) n nm args) \<le> k),
          row = (if row_iterator (Open tbl) n nm args = [] then None
                 else Some (row_iterator (Open tbl) n nm args !
                              min k (length (row_iterator (Open tbl) n nm args) - 1))),
          iter = Some (drop (Suc k) (row_iterator (Open tbl) n nm args))\<rparr>"
    by (simp add: filter_then_nexts_state row_iterator_Open split: list.splits)
qed

text \<open>
  C1: \<^verbatim>\<open>Filter\<close> always returns, and afterwards \<^verbatim>\<open>Eof()\<close> is true iff it was true
  before the call or the fresh row sequence is empty: nothing in \<^verbatim>\<open>Filter\<close> or \<^verbatim>\<open>Next\<close>
  clears the flag. On a cursor whose flag is clear this is the stated equivalence. On
  \<^verbatim>\<open>mytable\<close>, a cursor driven to the end by \<^verbatim>\<open>Filter\<close> and three \<^verbatim>\<open>Next\<close> calls and
  then filtered again holds the first row of the fresh, non-empty sequence and still
  reports \<^verbatim>\<open>Eof()\<close> true.
\<close>

theorem Filter_after_exhaustion_keeps_eof:
  "(\<exists>c. Filter self n nm args = Inr c \<and>
        Eof c = (Eof self \<or> row_iterator self n nm args = [])) \<and>
   drive (Open mytable) [FilterCall 0 None [], NextCall, NextCall, NextCall] =
     Inr \<lparr>table = mytable, eof = True,
          row = Some \<lparr>row_id = 30, row_values = [PyStr ''z'', PyInt 3]\<rparr>, iter = Some []\<rparr> \<and>
   drive (Open mytable)
       [FilterCall 0 None [], NextCall, NextCall, NextCall, FilterCall 0 None []] =
     Inr \<lparr>table = mytable, eof = True,
          row = Some \<lparr>row_id = 10, row_values = [PyStr ''x'', PyInt 1]\<rparr>,
          iter = Some [\<lparr>row_id = 20, row_values = [PyStr ''y'', PyInt 2]\<rparr>,
                       \<lparr>row_id = 30, row_values = [PyStr ''z'', PyInt 3]\<rparr>]\<rparr> \<and>
   row_iterator (Open mytable) 0 None [] \<noteq> []"
proof (intro conjI)
  show "\<exists>c. Filter self n nm args = Inr c \<and>
        Eof c = (Eof self \<or> row_iterator self n nm args = [])"
    by (rule Filter_returns)
qed (simp_all add: Filter_def Next_def Open_def Cursor_init_def row_iterator_def mytable_rows
      xyz_rows_def)

section \<open>Full scans\<close>

lemma list_getitem_nat: "i < length xs \<Longrightarrow> list_getitem xs (int i) = Inr (xs ! i)"
  by (simp add: list_getitem_def)

lemma read_columns_upt:
  "row self = Some r \<Longrightarrow> n \<le> length (row_values r) \<Longrightarrow> i \<le> n \<Longrightarrow>
   read_columns self (map int [i ..< n]) = Inr (drop i (take n (row_values r)))"
proof (induction "n - i" arbitrary: i)
  case 0
  then show ?case by simp
next
  case (Suc d)
  then have lt: "i < n" by simp
  then have "read_columns self (map int [Suc i ..< n]) =
      Inr (drop (Suc i) (take n (row_values r)))"
    using Suc by simp
  moreover have "Column self (int i) = Inr (row_values r ! i)"
    using Suc.prems lt by (simp add: Column_def list_getitem_nat)
  moreover have "drop i (take n (row_values r)) =
      row_values r ! i # drop (Suc i) (take n (row_values r))"
    using Suc.prems lt by (simp add: Cons_nth_drop_Suc [symmetric])
  ultimately show ?case using lt by (simp add: upt_conv_Cons)
qed

lemma read_row_positioned:
  "row self = Some r \<Longrightarrow> length (row_values r) = length (column_names (table self)) \<Longrightarrow>
   read_row self = Inr (row_as_read r)"
  using read_columns_upt [of self r "length (row_values r)" 0]
  by (simp add: read_row_def Rowid_def column_indexes_def row_as_read_def)

lemma scan_at_eof: "eof self \<Longrightarrow> scan self = Inr ([], self)"
  by (simp add: scan.simps Eof_def)

lemma scan_positioned:
  "\<forall>r \<in> set (r0 # rs). length (row_values r) = length (column_names (table self)) \<Longrightarrow>
   \<not> eof self \<Longrightarrow> row self = Some r0 \<Longrightarrow> iter self = Some rs \<Longrightarrow>
   scan self = Inr (map row_as_read (r0 # rs),
                    self\<lparr>eof := True, row := Some (last (r0 # rs)), iter := Some []\<rparr>)"
proof (induction rs arbitrary: r0 self)
  case Nil
  then have "read_row self = Inr (row_as_read r0)"
    by (simp add: read_row_positioned)
  moreover have "Next self = Inr (self\<lparr>eof := True\<rparr>)"
    using Nil by (simp add: Next_def)
  moreover have "self\<lparr>eof := True\<rparr> = self\<lparr>eof := True, row := Some r0, iter := Some []\<rparr>"
    using Nil by (cases self) simp
  ultimately show ?case
    using Nil by (subst scan.simps) (simp add: Eof_def scan_at_eof)
next
  case (Cons r1 rs)
  let ?next = "self\<lparr>row := Some r1, iter := Some rs\<rparr>"
  have "read_row self = Inr (row_as_read r0)"
    using Cons.prems by (simp add: read_row_positioned)
  moreover have "Next self = Inr ?next"
    using Cons.prems by (simp add: Next_def)
  moreover have "scan ?next = Inr (map row_as_read (r1 # rs),
      ?next\<lparr>eof := True, row := Some (last (r1 # rs)), iter := Some []\<rparr>)"
    using Cons.prems by (intro Cons.IH) simp_all
  ultimately show ?case
    using Cons.prems by (subst scan.simps) (simp add: Eof_def)
qed

lemma full_scan_at_eof:
  "eof self \<Longrightarrow> rows_read (full_scan self n nm args) = Inr []"
  by (auto simp: full_scan_def Filter_def Next_def rows_read_def scan_at_eof split: list.splits)

lemma full_scan_Open_result:
  assumes "\<forall>r \<in> set (get_cursor_class tbl n nm args).
             length (row_values r) = length (column_names tbl)"
  shows "full_scan (Open tbl) n nm args =
           Inr (map row_as_read (get_cursor_class tbl n nm args),
                \<lparr>table = tbl, eof = True,
                 row = (case get_cursor_class tbl n nm args of [] \<Rightarrow> None
                        | r # rs \<Rightarrow> Some (last (r # rs))),
                 iter = Some []\<rparr>)"
proof (cases "get_cursor_class tbl n nm args")
  case Nil
  then show ?thesis
    by (simp add: full_scan_def Filter_Open scan_at_eof)
next
  case (Cons r rs)
  let ?c = "\<lparr>table = tbl, eof = False, row = Some r, iter = Some rs\<rparr>"
  have "scan ?c = Inr (map row_as_read (r # rs),
      ?c\<lparr>eof := True, row := Some (last (r # rs)), iter := Some []\<rparr>)"
    using assms Cons by (intro scan_positioned) simp_all
  then show ?thesis
    using Cons by (simp add: full_scan_def Filter_Open)
qed

lemma scan_twice_Open:
  assumes "\<forall>r \<in> set (get_cursor_class tbl n nm args).
             length (row_values r) = length (column_names tbl)"
  shows "scan_twice (Open tbl) n nm args =
           Inr (map row_as_read (get_cursor_class tbl n nm args), [])"
proof -
  let ?c = "\<lparr>table = tbl, eof = True,
            row = (case get_cursor_class tbl n nm args of [] \<Rightarrow> None
                   | r # rs \<Rightarrow> Some (last (r # rs))),
            iter = Some []\<rparr>"
  have "rows_read (full_scan ?c n nm args) = Inr []"
    by (rule full_scan_at_eof) simp
  then show ?thesis
    using full_scan_Open_result [OF assms]
    by (auto simp: scan_twice_def rows_read_def split: sum.splits prod.splits)
qed

lemma read_columns_short:
  "row self = Some r \<Longrightarrow> length (row_values r) < n \<Longrightarrow> i \<le> length (row_values r) \<Longrightarrow>
   read_columns self (map int [i ..< n]) = Inl IndexError"
proof (induction "length (row_values r) - i" arbitrary: i)
  case 0
  then have "i = length (row_values r)" and lt: "i < n" by simp_all
  then have "Column self (int i) = Inl IndexError"
    using 0 by (simp add: Column_def list_getitem_def)
  then show ?case using lt by (simp add: upt_conv_Cons)
next
  case (Suc d)
  then have lt: "i < length (row_values r)" by simp
  then have "read_columns self (map int [Suc i ..< n]) = Inl IndexError"
    using Suc by simp
  moreover have "Column self (int i) = Inr (row_values r ! i)"
    using Suc.prems lt by (simp add: Column_def list_getitem_nat)
  ultimately show ?case using lt Suc.prems by (simp add: upt_conv_Cons)
qed

lemma read_row_current:
  "row self = Some r \<Longrightarrow>
   read_row self =
     (if length (column_names (table self)) \<le> length (row_values r)
      then Inr (row_id r, take (length (column_names (table self))) (row_values r))
      else Inl IndexError)"
  using read_columns_upt [of self r "length (column_names (table self))" 0]
    read_columns_short [of self r "length (column_names (table self))" 0]
  by (simp add: read_row_def Rowid_def column_indexes_def)

lemma rows_read_scan_step:
  "\<not> eof self \<Longrightarrow> read_row self = Inr x \<Longrightarrow> Next self = Inr self' \<Longrightarrow>
   rows_read (scan self) =
     (case rows_read (scan self') of Inl e \<Rightarrow> Inl e | Inr xs \<Rightarrow> Inr (x # xs))"
  by (subst scan.simps) (simp add: Eof_def rows_read_def split: sum.splits prod.splits)

lemma rows_read_scan_error:
  "\<not> eof self \<Longrightarrow> read_row self = Inl e \<Longrightarrow> rows_read (scan self) = Inl e"
  by (subst scan.simps) (simp add: Eof_def rows_read_def)

lemma scan_positioned_any:
  "\<not> eof self \<Longrightarrow> row self = Some r0 \<Longrightarrow> iter self = Some rs \<Longrightarrow>
   rows_read (scan self) =
     (if \<forall>r \<in> set (r0 # rs). length (column_names (table self)) \<le> length (row_values r)
      then Inr (map (\<lambda>r. (row_id r, take (length (column_names (table self))) (row_values r)))
                  (r0 # rs))
      else Inl IndexError)"
proof (induction rs arbitrary: r0 self)
  case Nil
  show ?case
  proof (cases "length (column_names (table self)) \<le> length (row_values r0)")
    case True
    have "Next self = Inr (self\<lparr>eof := True\<rparr>)"
      using Nil by (simp add: Next_def)
    moreover have "read_row self =
        Inr (row_id r0, take (length (column_names (table self))) (row_values r0))"
      using Nil True by (simp add: read_row_current)
    ultimately show ?thesis
      using Nil True rows_read_scan_step [of self _ "self\<lparr>eof := True\<rparr>"]
      by (simp add: scan_at_eof rows_read_def)
  next
    case False
    then have "read_row self = Inl IndexError"
      using Nil by (simp add: read_row_current)
    then show ?thesis
      using Nil False by (simp add: rows_read_scan_error)
  qed
next
  case (Cons r1 rs)
  let ?next = "self\<lparr>row := Some r1, iter := Some rs\<rparr>"
  have nx: "Next self = Inr ?next"
    using Cons.prems by (simp add: Next_def)
  have ih: "rows_read (scan ?next) =
     (if \<forall>r \<in> set (r1 # rs). length (column_names (table self)) \<le> length (row_values r)
      then Inr (map (\<lambda>r. (row_id r, take (length (column_names (table self))) (row_values r)))
                  (r1 # rs))
      else Inl IndexError)"
    using Cons.prems Cons.IH [of ?next r1] by simp
  show ?case
  proof (cases "length (column_names (table self)) \<le> length (row_values r0)")
    case True
    then have "read_row self =
        Inr (row_id r0, take (length (column_names (table self))) (row_values r0))"
      using Cons.prems by (simp add: read_row_current)
    then have "rows_read (scan self) =
        (case rows_read (scan ?next) of
           Inl e \<Rightarrow> Inl e
         | Inr xs \<Rightarrow>
             Inr ((row_id r0, take (length (column_names (table self))) (row_values r0)) # xs))"
      using Cons.prems nx by (intro rows_read_scan_step) simp_all
    then show ?thesis
      using True by (simp add: ih)
  next
    case False
    then have "read_row self = Inl IndexError"
      using Cons.prems by (simp add: read_row_current)
    then show ?thesis
      using Cons.prems False by (simp add: rows_read_scan_error)
  qed
qed

lemma full_scan_Open_rows_read:
  "rows_read (full_scan (Open tbl) n nm args) =
     (if \<forall>r \<in> set (get_cursor_class tbl n nm args).
           length (column_names tbl) \<le> length (row_values r)
      then Inr (map (\<lambda>r. (row_id r, take (length (column_names tbl)) (row_values r)))
                  (get_cursor_class tbl n nm args))
      else Inl IndexError)"
proof (cases "get_cursor_class tbl n nm args")
  case Nil
  then show ?thesis
    by (simp add: full_scan_def Filter_Open scan_at_eof rows_read_def)
next
  case (Cons r rs)
  let ?c = "\<lparr>table = tbl, eof = False, row = Some r, iter = Some rs\<rparr>"
  have "rows_read (scan ?c) =
     (if \<forall>r \<in> set (r # rs). length (column_names (table ?c)) \<le> length (row_values r)
      then Inr (map (\<lambda>r. (row_id r, take (length (column_names (table ?c))) (row_values r)))
                  (r # rs))
      else Inl IndexError)"
    by (intro scan_positioned_any) simp_all
  then show ?thesis
    using Cons by (simp add: full_scan_def Filter_Open)
qed

text \<open>
  C3, as the spec states it: for every table and filter arguments, what the scan reads
  would be the rows of the row iterator. Nothing makes a row carry one value per
  declared column. On a table that declares two columns, a row with one value makes
  \<^verbatim>\<open>Column(1)\<close> raise IndexError, so the scan reads no sequence at all, and of a row
  with three values the scan reads the first two only.
\<close>

theorem full_scan_fails_on_short_row:
  "row_iterator (Open ragged_table) 0 None [] =
     [\<lparr>row_id = 1, row_values = [PyStr ''x'', PyInt 1]\<rparr>,
      \<lparr>row_id = 2, row_values = [PyStr ''y'']\<rparr>] \<and>
   rows_read (full_scan (Open ragged_table) 0 None []) = Inl IndexError \<and>
   row_iterator (Open wide_table) 0 None [] =
     [\<lparr>row_id = 1, row_values = [PyStr ''x'', PyInt 1, PyNone]\<rparr>] \<and>
   rows_read (full_scan (Open wide_table) 0 None []) = Inr [(1, [PyStr ''x'', PyInt 1])]"
  by (simp add: full_scan_Open_rows_read row_iterator_Open)
     (simp add: ragged_table_def wide_table_def column_names_def)

text \<open>
  C3, amended: on a cursor just opened on a table, for every filter arguments, the
  host's scan (\<^verbatim>\<open>Filter\<close>, then reading \<^verbatim>\<open>Rowid()\<close> and \<^verbatim>\<open>Column(i)\<close> for every
  declared column index and calling \<^verbatim>\<open>Next()\<close> until \<^verbatim>\<open>Eof()\<close> is true) goes through
  the rows that the cursor's \<^verbatim>\<open>row_iterator\<close> yields for those arguments, in order,
  none left out and none twice. If every row carries at least as many values as the
  table declares columns, the scan ends without an exception and has read, for each row
  in turn, its id and its values at the declared column indexes; otherwise it raises
  IndexError. If every row carries exactly one value per declared column, what the scan
  has read is the sequence of rows itself, ids and values.
\<close>

theorem full_scan_reads_every_row:
  "rows_read (full_scan (Open tbl) n nm args) =
     (if \<forall>r \<in> set (row_iterator (Open tbl) n nm args).
           length (column_names tbl) \<le> length (row_values r)
      then Inr (map (\<lambda>r. (row_id r, take (length (column_names tbl)) (row_values r)))
                  (row_iterator (Open tbl) n nm args))
      else Inl IndexError) \<and>
   ((\<forall>r \<in> set (row_iterator (Open tbl) n nm args).
        length (row_values r) = length (column_names tbl)) \<longrightarrow>
    rows_read (full_scan (Open tbl) n nm args) =
      Inr (map row_as_read (row_iterator (Open tbl) n nm args)))"
  by (simp add: full_scan_Open_rows_read row_iterator_Open row_as_read_def)

theorem full_scan_reads_every_row_witness:
  "map (\<lambda>r. length (row_values r)) (row_iterator (Open mytable) 0 None []) = [2, 2, 2] \<and>
   length (column_names mytable) = 2 \<and>
   rows_read (full_scan (Open mytable) 0 None []) =
     Inr [(10, [PyStr ''x'', PyInt 1]), (20, [PyStr ''y'', PyInt 2]),
          (30, [PyStr ''z'', PyInt 3])]"
proof -
  have widths: "\<forall>r \<in> set (row_iterator (Open mytable) 0 None []).
      length (row_values r) = length (column_names mytable)"
    by (simp add: row_iterator_Open mytable_widths)
  have "rows_read (full_scan (Open mytable) 0 None []) =
      Inr (map row_as_read (row_iterator (Open mytable) 0 None []))"
    using widths full_scan_reads_every_row [of mytable 0 None "[]"] by blast
  then show ?thesis
    by (simp add: row_iterator_Open mytable_rows xyz_rows_def row_as_read_def)
       (simp add: mytable_def column_names_def)
qed

text \<open>
  C4: two scans of \<^verbatim>\<open>mytable\<close> on one cursor with the same filter arguments, the first
  driven to the end. The first reads the three rows. The second \<^verbatim>\<open>Filter\<close> builds a fresh
  iterator and loads its first row, but \<^verbatim>\<open>eof\<close> is still set from the first scan, so
  the host's loop stops at once and the second scan reads no row.
\<close>

theorem second_scan_after_exhaustion_is_empty:
  "scan_twice (Open mytable) 0 None [] =
     Inr ([(10, [PyStr ''x'', PyInt 1]), (20, [PyStr ''y'', PyInt 2]),
           (30, [PyStr ''z'', PyInt 3])],
          [])"
  using scan_twice_Open [OF mytable_widths, of 0 None "[]"]
  by (simp add: mytable_rows xyz_rows_def row_as_read_def)

section \<open>CSV row ids\<close>

lemma csv_scan_reads_current_file:
  "csv_Cursor_row_iterator (fs(csv_file tbl \<mapsto> recs)) tbl = Inr (csv_row_iterator recs) \<and>
   csv_Cursor_row_iterator (fs(csv_file tbl := None)) tbl = Inl IOError"
  by (simp add: csv_Cursor_row_iterator_def)

lemma row_iterator_loop_ids:
  "map row_id (row_iterator_loop idx reader) = replicate (length reader) idx"
  by (induction reader arbitrary: idx) simp_all

lemma row_iterator_loop_values: "map row_values (row_iterator_loop idx reader) = reader"
  by (induction reader arbitrary: idx) simp_all

text \<open>
  C8: every scan of a CSV table reads the file from its start and yields the records
  after the header, in order; the row id of every one of them is 0, because the loop
  advances its counter by \<^verbatim>\<open>idx += 0\<close>. For the file with the header \<^verbatim>\<open>name,age\<close> and
  two data lines, the table is connected with the header as its columns, and a scan on a
  cursor just opened reads the row ids 0 and 0.
\<close>

theorem csv_row_ids_all_zero:
  "map row_id (csv_row_iterator recs) = replicate (length recs - 1) 0 \<and>
   map row_values (csv_row_iterator recs) = tl recs \<and>
   csv_Table_init people_fs ''people'' ''people.csv'' = Inr people \<and>
   csv_Table_for_scan people_fs people = Inr people_table \<and>
   rows_read (full_scan (Open people_table) 0 None []) =
     Inr [(0, [''alice'', ''30'']), (0, [''bob'', ''25''])]"
proof (intro conjI)
  show "map row_id (csv_row_iterator recs) = replicate (length recs - 1) 0"
    by (cases recs) (simp_all add: csv_row_iterator_def row_iterator_loop_ids)
  show "map row_values (csv_row_iterator recs) = tl recs"
    by (cases recs) (simp_all add: csv_row_iterator_def row_iterator_loop_values)
  show "csv_Table_init people_fs ''people'' ''people.csv'' = Inr people"
    by (simp add: csv_Table_init_def people_fs_def people_csv_def people_def)
  show "csv_Table_for_scan people_fs people = Inr people_table"
    by (simp add: csv_Table_for_scan_def csv_Cursor_row_iterator_def people_fs_def people_def
        people_table_def)
  have widths: "\<forall>r \<in> set (get_cursor_class people_table 0 None []).
      length (row_values r) = length (column_names people_table)"
    by (simp add: people_table_def people_csv_def csv_row_iterator_def column_names_def)
  have rows: "map row_as_read (get_cursor_class people_table 0 None []) =
      [(0, [''alice'', ''30'']), (0, [''bob'', ''25''])]"
    by (simp add: people_table_def people_csv_def csv_row_iterator_def row_as_read_def)
  show "rows_read (full_scan (Open people_table) 0 None []) =
     Inr [(0, [''alice'', ''30'']), (0, [''bob'', ''25''])]"
    using full_scan_Open_result [OF widths] rows by (simp add: rows_read_def)
qed

section \<open>Create and Connect\<close>

text \<open>
  C9: \<^verbatim>\<open>Connect\<close> returns what \<^verbatim>\<open>Create\<close> returns and leaves the world as \<^verbatim>\<open>Create\<close>
  leaves it: the schema string and the table of \<^verbatim>\<open>create_table\<close>, or its exception.
  For a source that overrides \<^verbatim>\<open>create_table\<close>, \<^verbatim>\<open>Connect\<close> runs the override, and
  its outcome does not depend on what \<^verbatim>\<open>connect_table\<close> is.
\<close>

theorem Connect_dispatches_through_create_table:
  "Connect src db m d t args w = Create src db m d t args w \<and>
   Connect src db m d t args w =
     (case create_table src db m d t args w of
        (Inl e, w') \<Rightarrow> (Inl e, w')
      | (Inr tbl, w') \<Rightarrow> (Inr (create_table_sql tbl, tbl), w')) \<and>
   (create_table_override src = Some f \<longrightarrow>
      Connect src db m d t args w =
        (case f db m d t args w of
           (Inl e, w') \<Rightarrow> (Inl e, w')
         | (Inr tbl, w') \<Rightarrow> (Inr (create_table_sql tbl, tbl), w')) \<and>
      Connect (src\<lparr>connect_table := g\<rparr>) db m d t args w = Connect src db m d t args w)"
  by (simp add: Connect_def Create_def create_table_def)

theorem Connect_dispatches_through_create_table_witness:
  "create_table_override allocating_source = Some allocate \<and>
   Connect allocating_source () ''vtab'' ''main'' ''mytable'' [] 0 =
     (Inr (create_table_sql mytable, mytable), 1) \<and>
   Create allocating_source () ''vtab'' ''main'' ''mytable'' [] 0 =
     (Inr (create_table_sql mytable, mytable), 1) \<and>
   connect_table allocating_source () ''vtab'' ''main'' ''mytable'' [] 0 = (Inr mytable, 0)"
  using Connect_dispatches_through_create_table
    [of allocating_source "()" "''vtab''" "''main''" "''mytable''" "[]" 0 allocate]
  by (simp add: allocating_source_def allocate_def lookup_only_def Connect_def Create_def
      create_table_def)

section \<open>Registering the CSV module\<close>

text \<open>
  C10: whatever \<^verbatim>\<open>name\<close> is passed, \<^verbatim>\<open>register_on_connection\<close> does what
  \<^verbatim>\<open>createmodule\<close> does for the name \<^verbatim>\<open>csv\<close>: afterwards the CSV source is registered
  under \<^verbatim>\<open>csv\<close>, and a \<^verbatim>\<open>name\<close> other than \<^verbatim>\<open>csv\<close> is bound to what it was bound to
  before, if to anything.
\<close>

theorem register_on_connection_ignores_name:
  "register_on_connection connection name = createmodule connection ''csv'' csv_Source \<and>
   register_on_connection connection name ''csv'' = Some csv_Source \<and>
   (name \<noteq> ''csv'' \<longrightarrow> register_on_connection connection name name = connection name)"
  by (simp add: register_on_connection_def createmodule_def)

theorem register_on_connection_ignores_name_witness:
  "''sheets'' \<noteq> ''csv'' \<and>
   register_on_connection
     (Map.empty :: string \<rightharpoonup> (unit, string \<rightharpoonup> csv_records, csv_Table) TableSource)
     ''sheets'' ''sheets'' = None \<and>
   register_on_connection
     (Map.empty :: string \<rightharpoonup> (unit, string \<rightharpoonup> csv_records, csv_Table) TableSource)
     ''sheets'' ''csv'' = Some csv_Source"
  using register_on_connection_ignores_name
    [of "Map.empty :: string \<rightharpoonup> (unit, string \<rightharpoonup> csv_records, csv_Table) TableSource"
        "''sheets''"]
  by (simp add: register_on_connection_def createmodule_def)

end
